theory Spec2Isabelle
  imports Complex_Main "HOL-Library.Char_ord" "HOL-Library.List_Lexorder"
begin

section \<open>Text\<close>

text \<open>
  Python strings are sequences of code points. The model keeps the code points below 256
  (Latin-1), one \<^typ>\<open>char\<close> each: \<open>CHR 0xA3\<close> is the pound sign, \<open>CHR 0xE2\<close> the
  lower-case a with circumflex that the script removes from column names. Strings are
  compared as Python compares them, lexicographically by code point.
\<close>

definition isspace :: "char \<Rightarrow> bool" where
  "isspace c \<longleftrightarrow> (of_char c :: nat) \<in> {9, 10, 11, 12, 13, 28, 29, 30, 31, 32, 133, 160}"

definition strip :: "string \<Rightarrow> string" where
  "strip s = rev (dropWhile isspace (rev (dropWhile isspace s)))"

definition lower_char :: "char \<Rightarrow> char" where
  "lower_char c =
     (let n = (of_char c :: nat)
      in if (65 \<le> n \<and> n \<le> 90) \<or> (192 \<le> n \<and> n \<le> 222 \<and> n \<noteq> 215)
         then char_of (n + 32) else c)"

definition lower :: "string \<Rightarrow> string" where
  "lower s = map lower_char s"

text \<open>
  The upper-case forms of the code points 181, 223 and 255 lie outside Latin-1 (223 even
  becomes two letters); the model leaves these three unchanged. None of them, nor their
  upper-case forms, occurs in a priority label, so the priority filter is not affected.
\<close>

definition upper_char :: "char \<Rightarrow> char" where
  "upper_char c =
     (let n = (of_char c :: nat)
      in if (97 \<le> n \<and> n \<le> 122) \<or> (224 \<le> n \<and> n \<le> 254 \<and> n \<noteq> 247)
         then char_of (n - 32) else c)"

definition capitalize :: "string \<Rightarrow> string" where
  "capitalize s = (case s of [] \<Rightarrow> [] | c # cs \<Rightarrow> upper_char c # lower cs)"

definition remove_char :: "char \<Rightarrow> string \<Rightarrow> string" where
  "remove_char x s = filter (\<lambda>c. c \<noteq> x) s"

definition replace_char :: "char \<Rightarrow> char \<Rightarrow> string \<Rightarrow> string" where
  "replace_char x y s = map (\<lambda>c. if c = x then y else c) s"

text \<open>Lines 54 to 60: the chain of string methods applied to every column name.\<close>

definition normalize_name :: "string \<Rightarrow> string" where
  "normalize_name s =
     replace_char (CHR '' '') (CHR ''_'')
       (remove_char (CHR 0xE2) (remove_char (CHR 0xA3) (lower (strip s))))"

section \<open>Data frames\<close>

text \<open>
  A column has a dtype that it keeps when rows are removed, and cells of that dtype.
  \<open>None\<close> is the missing marker (NaN, or NaT in a datetime column); a boolean column has
  none. Floating-point numbers are idealised as rationals. A frame is the list of its
  labelled columns, in order; a frame read from a file is rectangular and its labels are
  distinct. A label is looked up at the first column that bears it.
\<close>

datatype column =
    Number "rat option list"
  | Object "string option list"
  | Boolean "bool list"
  | Datetime "int option list"

type_synonym frame = "(string \<times> column) list"

datatype key = Label string | Labels "string list" | Position nat

datatype error = KeyError key | AttributeError | TypeError

definition then_do :: "error + 'a \<Rightarrow> ('a \<Rightarrow> error + 'b) \<Rightarrow> error + 'b" where
  "then_do r f = (case r of Inl e \<Rightarrow> Inl e | Inr x \<Rightarrow> f x)"

definition columns :: "frame \<Rightarrow> string list" where
  "columns df = map fst df"

fun col_len :: "column \<Rightarrow> nat" where
  "col_len (Number xs) = length xs"
| "col_len (Object xs) = length xs"
| "col_len (Boolean xs) = length xs"
| "col_len (Datetime xs) = length xs"

definition nrows :: "frame \<Rightarrow> nat" where
  "nrows df = (case df of [] \<Rightarrow> 0 | (n, c) # rest \<Rightarrow> col_len c)"

definition shape :: "frame \<Rightarrow> nat \<times> nat" where
  "shape df = (nrows df, length df)"

text \<open>\<open>df[name]\<close>: the column, or KeyError.\<close>

definition getcol :: "frame \<Rightarrow> string \<Rightarrow> error + column" where
  "getcol df name =
     (case map_of df name of None \<Rightarrow> Inl (KeyError (Label name)) | Some c \<Rightarrow> Inr c)"

text \<open>\<open>df[name] = c\<close>: overwrite the column in place, or append a new one.\<close>

fun setcol :: "frame \<Rightarrow> string \<Rightarrow> column \<Rightarrow> frame" where
  "setcol [] name c = [(name, c)]"
| "setcol ((n, x) # df) name c =
     (if n = name then (n, c) # df else (n, x) # setcol df name c)"

text \<open>Boolean indexing \<open>df[mask]\<close>: the rows where the mask holds.\<close>

definition compress :: "bool list \<Rightarrow> 'a list \<Rightarrow> 'a list" where
  "compress keep xs = map snd (filter fst (zip keep xs))"

fun take_rows :: "bool list \<Rightarrow> column \<Rightarrow> column" where
  "take_rows keep (Number xs) = Number (compress keep xs)"
| "take_rows keep (Object xs) = Object (compress keep xs)"
| "take_rows keep (Boolean xs) = Boolean (compress keep xs)"
| "take_rows keep (Datetime xs) = Datetime (compress keep xs)"

definition select_rows :: "bool list \<Rightarrow> frame \<Rightarrow> frame" where
  "select_rows keep df = map (\<lambda>(n, c). (n, take_rows keep c)) df"

fun isna :: "column \<Rightarrow> bool list" where
  "isna (Number xs) = map (\<lambda>x. x = None) xs"
| "isna (Object xs) = map (\<lambda>x. x = None) xs"
| "isna (Boolean xs) = map (\<lambda>x. False) xs"
| "isna (Datetime xs) = map (\<lambda>x. x = None) xs"

definition fillna :: "'a option \<Rightarrow> 'a option list \<Rightarrow> 'a option list" where
  "fillna v xs = map (\<lambda>x. case x of None \<Rightarrow> v | Some y \<Rightarrow> Some y) xs"

definition present :: "'a option list \<Rightarrow> 'a list" where
  "present xs = [v. Some v \<leftarrow> xs]"

section \<open>Cleaning\<close>

subsection \<open>4 Column names\<close>

definition normalize_columns :: "frame \<Rightarrow> frame" where
  "normalize_columns df = map (\<lambda>(n, c). (normalize_name n, c)) df"

subsection \<open>4.1 Rename the value column, drop rows missing required fields\<close>

definition rename_value :: "frame \<Rightarrow> frame" where
  "rename_value df =
     (if ''value_'' \<in> set (columns df)
      then map (\<lambda>(n, c). (if n = ''value_'' then ''total_sales_value'' else n, c)) df
      else df)"

text \<open>
  \<open>dropna(subset=[...])\<close> raises KeyError naming the labels of the subset that the frame
  lacks; otherwise it keeps the rows where neither field is missing.
\<close>

definition required :: "string list" where
  "required = [''sales_person'', ''total_sales_value'']"

definition dropna_mask :: "column \<Rightarrow> column \<Rightarrow> bool list" where
  "dropna_mask a b = map (\<lambda>(x, y). \<not> x \<and> \<not> y) (zip (isna a) (isna b))"

definition dropna_required :: "frame \<Rightarrow> error + frame" where
  "dropna_required df =
     (case (map_of df ''sales_person'', map_of df ''total_sales_value'') of
        (Some a, Some b) \<Rightarrow> Inr (select_rows (dropna_mask a b) df)
      | _ \<Rightarrow> Inl (KeyError (Labels (filter (\<lambda>k. k \<notin> set (columns df)) required))))"

subsection \<open>4.2 Missing numeric values\<close>

definition median :: "rat option list \<Rightarrow> rat option" where
  "median xs =
     (let vs = sort (present xs); n = length vs
      in if n = 0 then None
         else if odd n then Some (vs ! (n div 2))
         else Some ((vs ! (n div 2 - 1) + vs ! (n div 2)) / 2))"

definition fill_median :: "column \<Rightarrow> column" where
  "fill_median c = (case c of Number xs \<Rightarrow> Number (fillna (median xs) xs) | _ \<Rightarrow> c)"

definition impute_numeric :: "frame \<Rightarrow> frame" where
  "impute_numeric df = map (\<lambda>(n, c). (n, fill_median c)) df"

subsection \<open>4.3 Missing categorical values\<close>

text \<open>
  \<open>Series.mode()\<close> ignores missing cells and returns the most frequent values in
  ascending order; \<open>[0]\<close> on the empty result raises KeyError.
\<close>

definition mode :: "string option list \<Rightarrow> string list" where
  "mode xs =
     (let vs = present xs; top = fold max (map (count_list vs) vs) 0
      in sort (remdups (filter (\<lambda>v. count_list vs v = top) vs)))"

definition fill_mode :: "string option list \<Rightarrow> error + string option list" where
  "fill_mode xs =
     (case mode xs of [] \<Rightarrow> Inl (KeyError (Position 0)) | m # ms \<Rightarrow> Inr (fillna (Some m) xs))"

fun impute_categorical :: "frame \<Rightarrow> error + frame" where
  "impute_categorical [] = Inr []"
| "impute_categorical ((n, Object xs) # df) =
     then_do (fill_mode xs) (\<lambda>ys.
     then_do (impute_categorical df) (\<lambda>df'. Inr ((n, Object ys) # df')))"
| "impute_categorical ((n, c) # df) =
     then_do (impute_categorical df) (\<lambda>df'. Inr ((n, c) # df'))"

subsection \<open>4.4 The date column\<close>

text \<open>
  What \<open>pd.to_datetime\<close> makes of a cell is a parameter of the model: \<open>parse_text\<close>
  reads a string (it is given the whole column too, since the library may settle on one
  format for the whole column) and \<open>parse_epoch\<close> reads a number; \<open>None\<close> is a value
  that cannot be read. With \<open>errors = 'coerce'\<close> such a value becomes the missing
  marker. A datetime column is returned as it is; a boolean column is a TypeError.
\<close>

record parser =
  parse_text :: "string option list \<Rightarrow> string \<Rightarrow> int option"
  parse_epoch :: "rat \<Rightarrow> int option"

fun to_datetime :: "parser \<Rightarrow> column \<Rightarrow> error + column" where
  "to_datetime P (Object xs) = Inr (Datetime (map (\<lambda>x. Option.bind x (parse_text P xs)) xs))"
| "to_datetime P (Number xs) = Inr (Datetime (map (\<lambda>x. Option.bind x (parse_epoch P)) xs))"
| "to_datetime P (Datetime xs) = Inr (Datetime xs)"
| "to_datetime P (Boolean xs) = Inl TypeError"

definition convert_date :: "parser \<Rightarrow> frame \<Rightarrow> error + frame" where
  "convert_date P df =
     then_do (getcol df ''date'') (\<lambda>c.
     then_do (to_datetime P c) (\<lambda>d. Inr (setcol df ''date'' d)))"

subsection \<open>4.5 Priority\<close>

definition priority_map :: "(string \<times> int) list" where
  "priority_map = [(''Low'', 1), (''Medium'', 2), (''High'', 3), (''Critical'', 4)]"

text \<open>The \<open>.str\<close> accessor exists on a column of strings only.\<close>

fun str_accessor :: "column \<Rightarrow> error + string option list" where
  "str_accessor (Object xs) = Inr xs"
| "str_accessor c = Inl AttributeError"

text \<open>Line 104: \<open>.str.capitalize().str.strip()\<close>, in this order.\<close>

definition priority_label :: "string \<Rightarrow> string" where
  "priority_label s = strip (capitalize s)"

definition normalize_priority :: "frame \<Rightarrow> error + frame" where
  "normalize_priority df =
     then_do (getcol df ''priority'') (\<lambda>c.
     then_do (str_accessor c) (\<lambda>xs.
       Inr (setcol df ''priority'' (Object (map (map_option priority_label) xs)))))"

definition isin :: "string option list \<Rightarrow> string list \<Rightarrow> bool list" where
  "isin xs keys = map (\<lambda>x. case x of None \<Rightarrow> False | Some s \<Rightarrow> s \<in> set keys) xs"

definition map_values :: "string option list \<Rightarrow> (string \<times> int) list \<Rightarrow> rat option list" where
  "map_values xs d = map (\<lambda>x. map_option of_int (Option.bind x (map_of d))) xs"

text \<open>Lines 105 and 106; the priority column is the one line 104 has just stored.\<close>

definition valid_priority :: "frame \<Rightarrow> error + frame" where
  "valid_priority df =
     then_do (getcol df ''priority'') (\<lambda>c.
     then_do (str_accessor c) (\<lambda>xs.
       (let df_valid = select_rows (isin xs (map fst priority_map)) df
        in then_do (getcol df_valid ''priority'') (\<lambda>c'.
           then_do (str_accessor c') (\<lambda>ys.
             Inr (setcol df_valid ''priority_numeric'' (Number (map_values ys priority_map))))))))"

subsection \<open>4.6 Duplicate rows\<close>

datatype cell = NumC "rat option" | StrC "string option" | BoolC bool | TimeC "int option"

fun cells :: "column \<Rightarrow> cell list" where
  "cells (Number xs) = map NumC xs"
| "cells (Object xs) = map StrC xs"
| "cells (Boolean xs) = map BoolC xs"
| "cells (Datetime xs) = map TimeC xs"

fun rows_of :: "nat \<Rightarrow> frame \<Rightarrow> cell list list" where
  "rows_of n [] = replicate n []"
| "rows_of n ((name, c) # df) = map (\<lambda>(x, r). x # r) (zip (cells c) (rows_of n df))"

definition rows :: "frame \<Rightarrow> cell list list" where
  "rows df = rows_of (nrows df) df"

text \<open>A row is kept when no earlier row equals it in every column; missing equals missing.\<close>

fun first_seen :: "'a list \<Rightarrow> 'a list \<Rightarrow> bool list" where
  "first_seen seen [] = []"
| "first_seen seen (r # rs) = (r \<notin> set seen) # first_seen (r # seen) rs"

definition drop_duplicates :: "frame \<Rightarrow> frame" where
  "drop_duplicates df = select_rows (first_seen [] (rows df)) df"

subsection \<open>4.7 Outliers\<close>

text \<open>
  \<open>Series.quantile(q)\<close> with linear interpolation over the sorted non-missing values;
  the quantile of no values is NaN, written \<open>None\<close>.
\<close>

definition quantile :: "rat \<Rightarrow> rat option list \<Rightarrow> rat option" where
  "quantile q xs =
     (let vs = sort (present xs); n = length vs
      in if n = 0 then None
         else (let h = q * of_nat (n - 1); lo = nat \<lfloor>h\<rfloor>; hi = nat \<lceil>h\<rceil>
               in Some (vs ! lo + (vs ! hi - vs ! lo) * (h - of_nat lo))))"

text \<open>Arithmetic and comparison with NaN: the result is NaN, the comparison is false.\<close>

definition nan_op :: "(rat \<Rightarrow> rat \<Rightarrow> rat) \<Rightarrow> rat option \<Rightarrow> rat option \<Rightarrow> rat option" where
  "nan_op f a b = (case (a, b) of (Some x, Some y) \<Rightarrow> Some (f x y) | _ \<Rightarrow> None)"

definition nan_le :: "rat option \<Rightarrow> rat option \<Rightarrow> bool" where
  "nan_le a b = (case (a, b) of (Some x, Some y) \<Rightarrow> x \<le> y | _ \<Rightarrow> False)"

definition lower_bound :: "rat option list \<Rightarrow> rat option" where
  "lower_bound xs =
     (let Q1 = quantile (1 / 4) xs; Q3 = quantile (3 / 4) xs; IQR = nan_op (-) Q3 Q1
      in nan_op (-) Q1 (nan_op (*) (Some (3 / 2)) IQR))"

definition upper_bound :: "rat option list \<Rightarrow> rat option" where
  "upper_bound xs =
     (let Q1 = quantile (1 / 4) xs; Q3 = quantile (3 / 4) xs; IQR = nan_op (-) Q3 Q1
      in nan_op (+) Q3 (nan_op (*) (Some (3 / 2)) IQR))"

definition within_bounds :: "rat option list \<Rightarrow> bool list" where
  "within_bounds xs =
     map (\<lambda>x. nan_le (lower_bound xs) x \<and> nan_le x (upper_bound xs)) xs"

text \<open>
  The quantile of a column of strings or of booleans is a TypeError. A datetime column of
  sales values is outside the model (no frame read from a file has one, and line 95
  converts the date column only); the model answers TypeError there too.
\<close>

definition remove_outliers :: "frame \<Rightarrow> error + frame" where
  "remove_outliers df_valid =
     then_do (getcol df_valid ''total_sales_value'') (\<lambda>c.
       case c of Number xs \<Rightarrow> Inr (select_rows (within_bounds xs) df_valid)
               | _ \<Rightarrow> Inl TypeError)"

subsection \<open>The cleaning steps in the order of the script\<close>

text \<open>\<open>prepare\<close> is the table \<open>df\<close> after line 104; \<open>deduplicated\<close> is \<open>df_valid\<close> after line 111.\<close>

definition prepare :: "parser \<Rightarrow> frame \<Rightarrow> error + frame" where
  "prepare P raw =
     then_do (dropna_required (rename_value (normalize_columns raw))) (\<lambda>df.
     then_do (impute_categorical (impute_numeric df)) (\<lambda>df.
     then_do (convert_date P df) (\<lambda>df.
       normalize_priority df)))"

definition narrow :: "frame \<Rightarrow> error + frame" where
  "narrow df = then_do (valid_priority df) (\<lambda>df_valid. Inr (drop_duplicates df_valid))"

definition deduplicated :: "parser \<Rightarrow> frame \<Rightarrow> error + frame" where
  "deduplicated P raw = then_do (prepare P raw) narrow"

definition clean :: "parser \<Rightarrow> frame \<Rightarrow> error + frame" where
  "clean P raw = then_do (deduplicated P raw) remove_outliers"

section \<open>The script and what it prints\<close>

text \<open>
  Lines 35 to 41 print the first five rows, the shape, the dtypes and the number of
  missing cells per column of the raw table; lines 132 and 134 print the column names of
  \<open>df\<close> and the shape of \<open>df_valid\<close>. Everything that sections 5 to 9 print or plot is
  computed from \<open>df_valid\<close> alone, so \<open>Statistics\<close> carries that table. An exception
  ends the script: what was printed before stays, nothing follows.
\<close>

datatype dtype = NumberT | ObjectT | BoolT | DatetimeT

fun dtype_of :: "column \<Rightarrow> dtype" where
  "dtype_of (Number xs) = NumberT"
| "dtype_of (Object xs) = ObjectT"
| "dtype_of (Boolean xs) = BoolT"
| "dtype_of (Datetime xs) = DatetimeT"

fun head_col :: "column \<Rightarrow> column" where
  "head_col (Number xs) = Number (take 5 xs)"
| "head_col (Object xs) = Object (take 5 xs)"
| "head_col (Boolean xs) = Boolean (take 5 xs)"
| "head_col (Datetime xs) = Datetime (take 5 xs)"

datatype emitted =
    Head frame
  | Shape "nat \<times> nat"
  | Dtypes "(string \<times> dtype) list"
  | Missing "(string \<times> nat) list"
  | CleanedColumns "string list"
  | FinalShape "nat \<times> nat"
  | Statistics frame

definition inspection :: "frame \<Rightarrow> emitted list" where
  "inspection df =
     [Head (map (\<lambda>(n, c). (n, head_col c)) df),
      Shape (shape df),
      Dtypes (map (\<lambda>(n, c). (n, dtype_of c)) df),
      Missing (map (\<lambda>(n, c). (n, length (filter id (isna c)))) df)]"

definition script :: "parser \<Rightarrow> frame \<Rightarrow> emitted list \<times> error option" where
  "script P raw =
     (case prepare P raw of
        Inl e \<Rightarrow> (inspection raw, Some e)
      | Inr df \<Rightarrow>
          (case then_do (narrow df) remove_outliers of
             Inl e \<Rightarrow> (inspection raw, Some e)
           | Inr df_valid \<Rightarrow>
               (inspection raw @
                  [CleanedColumns (columns df), FinalShape (shape df_valid),
                   Statistics df_valid],
                None)))"


section \<open>Example inputs\<close>

text \<open>
  An instance of the date parameter for the closed examples: it reads dates written
  \<open>YYYY-MM-DD\<close> as the number \<open>YYYYMMDD\<close> and nothing else.
\<close>

definition digit :: "char \<Rightarrow> int option" where
  "digit c =
     (let n = (of_char c :: int) in if 48 \<le> n \<and> n \<le> 57 then Some (n - 48) else None)"

fun number_of :: "int \<Rightarrow> string \<Rightarrow> int option" where
  "number_of acc [] = Some acc"
| "number_of acc (c # cs) =
     (case digit c of None \<Rightarrow> None | Some d \<Rightarrow> number_of (10 * acc + d) cs)"

definition iso_date :: "string \<Rightarrow> int option" where
  "iso_date s =
     (if length s = 10 \<and> s ! 4 = CHR ''-'' \<and> s ! 7 = CHR ''-''
      then (case (number_of 0 (take 4 s), number_of 0 (take 2 (drop 5 s)),
                  number_of 0 (drop 8 s)) of
              (Some y, Some m, Some d) \<Rightarrow>
                if 1 \<le> m \<and> m \<le> 12 \<and> 1 \<le> d \<and> d \<le> 31
                then Some (10000 * y + 100 * m + d) else None
            | _ \<Rightarrow> None)
      else None)"

definition iso_dates :: parser where
  "iso_dates = \<lparr>parse_text = (\<lambda>column s. iso_date s), parse_epoch = (\<lambda>r. None)\<rparr>"

text \<open>The three rows of the specification's scenario, under the labels the script needs.\<close>

definition scenario :: frame where
  "scenario =
     [(''sales_person'', Object [Some ''Alice'', Some ''Bob'', Some ''Alice'']),
      (''total_sales_value'', Number [Some 100, None, Some 100]),
      (''priority'', Object [Some ''Low'', Some ''High'', Some ''Low'']),
      (''date'', Object [Some ''2024-01-01'', Some ''2024-01-02'', Some ''2024-01-01''])]"

text \<open>Two rows that differ in the priority's leading space only.\<close>

definition leading_space :: frame where
  "leading_space =
     [(''sales_person'', Object [Some ''Alice'', Some ''Bob'']),
      (''total_sales_value'', Number [Some 100, Some 200]),
      (''priority'', Object [Some ''low '', Some '' low'']),
      (''date'', Object [Some ''2024-01-01'', Some ''2024-01-02''])]"

text \<open>
  The only region is on a row without a sales person; once line 69 has dropped that row,
  the region column holds missing cells only.
\<close>

definition region_lost :: frame where
  "region_lost =
     [(''sales_person'', Object [None, Some ''Bob'']),
      (''total_sales_value'', Number [Some 50, Some 100]),
      (''priority'', Object [Some ''Low'', Some ''High'']),
      (''date'', Object [Some ''2024-01-01'', Some ''2024-01-02'']),
      (''region'', Object [Some ''North'', None])]"

text \<open>Five sales of five sales persons; the values are 10, 11, 12, 18 and 29.\<close>

definition five_sales :: frame where
  "five_sales =
     [(''sales_person'', Object [Some ''A'', Some ''B'', Some ''C'', Some ''D'', Some ''E'']),
      (''total_sales_value'', Number [Some 10, Some 11, Some 12, Some 18, Some 29]),
      (''priority'', Object [Some ''Low'', Some ''Low'', Some ''High'', Some ''High'', Some ''Low'']),
      (''date'', Object [Some ''2024-01-01'', Some ''2024-01-02'', Some ''2024-01-03'',
                         Some ''2024-01-04'', Some ''2024-01-05''])]"

text \<open>The four rows that cleaning leaves of \<open>five_sales\<close>.\<close>

definition four_sales :: frame where
  "four_sales =
     [(''sales_person'', Object [Some ''A'', Some ''B'', Some ''C'', Some ''D'']),
      (''total_sales_value'', Number [Some 10, Some 11, Some 12, Some 18]),
      (''priority'', Object [Some ''Low'', Some ''Low'', Some ''High'', Some ''High'']),
      (''date'', Datetime [Some 20240101, Some 20240102, Some 20240103, Some 20240104]),
      (''priority_numeric'', Number [Some 1, Some 1, Some 3, Some 3])]"



text \<open>
  A file with a header line and no rows: every column is read with dtype object. A table
  that has no column for the sales value under either name.
\<close>

definition header_only :: frame where
  "header_only =
     [(''Sales Person'', Object []), (''Value '' @ [CHR 0xA3], Object []),
      (''Priority'', Object []), (''Date'', Object [])]"

definition no_value :: frame where
  "no_value =
     [(''sales_person'', Object [Some ''Alice'']), (''amount'', Number [Some 100]),
      (''priority'', Object [Some ''Low'']), (''date'', Object [Some ''2024-01-01''])]"




text \<open>One row, whose priority is not a key of the priority map.\<close>

definition unknown_only :: frame where
  "unknown_only =
     [(''sales_person'', Object [Some ''Alice'']),
      (''total_sales_value'', Number [Some 100]),
      (''priority'', Object [Some ''banana'']),
      (''date'', Object [Some ''2024-01-01''])]"

section \<open>Notions used in the statements\<close>

text \<open>The first mode of a column, if it has one, and the column filled with it.\<close>

definition first_mode :: "string option list \<Rightarrow> string option" where
  "first_mode xs = (case mode xs of [] \<Rightarrow> None | m # ms \<Rightarrow> Some m)"

definition fill_with_mode :: "column \<Rightarrow> column" where
  "fill_with_mode c = (case c of Object xs \<Rightarrow> Object (fillna (first_mode xs) xs) | _ \<Rightarrow> c)"

text \<open>
  Every column has \<open>N\<close> cells; a table without rows; a table whose columns all have
  the length of the first. \<open>kept keep N\<close> is the number of rows that a mask keeps of
  \<open>N\<close>.
\<close>

definition uniform :: "nat \<Rightarrow> frame \<Rightarrow> bool" where
  "uniform N df = list_all (\<lambda>(n, c). col_len c = N) df"

definition no_rows :: "frame \<Rightarrow> bool" where
  "no_rows df = uniform 0 df"


definition kept :: "bool list \<Rightarrow> nat \<Rightarrow> nat" where
  "kept keep N = length (filter id (take N keep))"


section \<open>Facts about frames and the cleaning steps\<close>

subsection \<open>Lookups, masks and results\<close>

lemma then_do_Inr: "then_do r f = Inr y \<longleftrightarrow> (\<exists>x. r = Inr x \<and> f x = Inr y)"
  by (cases r) (simp_all add: then_do_def)

lemma getcol_Inr: "getcol df k = Inr c \<longleftrightarrow> map_of df k = Some c"
  by (simp add: getcol_def split: option.splits)

lemma str_accessor_Inr: "str_accessor c = Inr xs \<longleftrightarrow> c = Object xs"
  by (cases c) auto

lemma map_of_select_rows:
  "map_of (select_rows keep df) k = map_option (take_rows keep) (map_of df k)"
  by (induction df) (auto simp: select_rows_def)

lemma map_of_setcol:
  "map_of (setcol df n c) k = (if k = n then Some c else map_of df k)"
  by (induction df n c rule: setcol.induct) auto

lemma compress_Nil [simp]: "compress keep [] = []" "compress [] xs = []"
  by (simp_all add: compress_def)

lemma compress_Cons [simp]:
  "compress (b # keep) (x # xs) = (if b then x # compress keep xs else compress keep xs)"
  by (simp add: compress_def)

lemma compress_map_filter: "compress (map Q xs) xs = filter Q xs"
  by (induction xs) simp_all

lemma set_compress: "set (compress keep xs) \<subseteq> set xs"
proof (induction xs arbitrary: keep)
  case Nil
  then show ?case by simp
next
  case (Cons x xs)
  then show ?case by (cases keep) auto
qed

lemma compress_map: "compress keep (map f xs) = map f (compress keep xs)"
proof (induction xs arbitrary: keep)
  case Nil
  then show ?case by simp
next
  case (Cons x xs)
  then show ?case by (cases keep) auto
qed

lemma remove_outliers_Inr:
  "remove_outliers d = Inr out \<longleftrightarrow>
     (\<exists>pop. map_of d ''total_sales_value'' = Some (Number pop) \<and>
            out = select_rows (within_bounds pop) d)"
proof (cases "map_of d ''total_sales_value''")
  case None
  then show ?thesis by (simp add: remove_outliers_def then_do_def getcol_def)
next
  case (Some c)
  then show ?thesis
    by (cases c) (auto simp: remove_outliers_def then_do_def getcol_def)
qed

lemma nan_le_Some: "nan_le a b \<longleftrightarrow> (\<exists>x y. a = Some x \<and> b = Some y \<and> x \<le> y)"
  by (auto simp: nan_le_def split: option.splits)



lemma within_bounds_filter:
  "compress (within_bounds pop) pop =
     filter (\<lambda>x. nan_le (lower_bound pop) x \<and> nan_le x (upper_bound pop)) pop"
  unfolding within_bounds_def by (rule compress_map_filter)


subsection \<open>Required fields and imputation\<close>

lemma isna_take_rows: "isna (take_rows keep c) = compress keep (isna c)"
  by (cases c) (simp_all add: compress_map)

lemma dropna_required_Inr:
  "dropna_required df = Inr d \<longleftrightarrow>
     (\<exists>a b. map_of df ''sales_person'' = Some a \<and> map_of df ''total_sales_value'' = Some b \<and>
            d = select_rows (dropna_mask a b) df)"
  by (auto simp: dropna_required_def split: option.splits)

lemma compress_both_present:
  "True \<notin> set (compress (map (\<lambda>(x, y). \<not> x \<and> \<not> y) (zip xs ys)) xs)"
proof (induction xs arbitrary: ys)
  case Nil
  then show ?case by simp
next
  case (Cons x xs)
  then show ?case by (cases ys) auto
qed

lemma dropna_mask_complete: "True \<notin> set (isna (take_rows (dropna_mask a b) a))"
  by (simp add: isna_take_rows dropna_mask_def compress_both_present)

lemma take_rows_complete:
  "True \<notin> set (isna c) \<Longrightarrow> True \<notin> set (isna (take_rows keep c))"
  using set_compress [of keep "isna c"] by (auto simp: isna_take_rows)

lemma map_of_impute_numeric:
  "map_of (impute_numeric df) k = map_option fill_median (map_of df k)"
  by (simp add: impute_numeric_def map_of_map)

lemma fillna_complete: "None \<notin> set xs \<Longrightarrow> fillna v xs = xs"
  by (induction xs) (auto simp: fillna_def split: option.splits)

lemma complete_Number: "True \<notin> set (isna (Number xs)) \<longleftrightarrow> None \<notin> set xs"
  by (auto simp: image_iff)

lemma complete_Object: "True \<notin> set (isna (Object xs)) \<longleftrightarrow> None \<notin> set xs"
  by (auto simp: image_iff)

lemma fill_median_complete: "True \<notin> set (isna c) \<Longrightarrow> fill_median c = c"
  by (cases c) (simp_all add: fill_median_def complete_Number fillna_complete del: isna.simps)

lemma fill_mode_Inr:
  "fill_mode xs = Inr ys \<longleftrightarrow> first_mode xs \<noteq> None \<and> ys = fillna (first_mode xs) xs"
  by (auto simp: fill_mode_def first_mode_def split: list.splits)

lemma map_of_impute_categorical:
  "impute_categorical df = Inr d \<Longrightarrow> map_of d k = map_option fill_with_mode (map_of df k)"
proof (induction df arbitrary: d)
  case Nil
  then show ?case by simp
next
  case (Cons a df)
  obtain n c where a: "a = (n, c)" by (cases a)
  from Cons show ?case unfolding a
    by (cases c) (auto simp: then_do_Inr fill_mode_Inr fill_with_mode_def)
qed

lemma impute_categorical_mode:
  "impute_categorical df = Inr d \<Longrightarrow> map_of df k = Some (Object xs) \<Longrightarrow> first_mode xs \<noteq> None"
proof (induction df arbitrary: d)
  case Nil
  then show ?case by simp
next
  case (Cons a df)
  obtain n c where a: "a = (n, c)" by (cases a)
  from Cons show ?case unfolding a
    by (cases c) (auto simp: then_do_Inr fill_mode_Inr split: if_splits)
qed

lemma fill_with_mode_complete: "True \<notin> set (isna c) \<Longrightarrow> fill_with_mode c = c"
  by (cases c) (simp_all add: fill_with_mode_def complete_Object fillna_complete del: isna.simps)

subsection \<open>The steps of the pipeline, when they succeed\<close>

lemma convert_date_Inr:
  "convert_date P df = Inr d \<longleftrightarrow>
     (\<exists>c t. map_of df ''date'' = Some c \<and> to_datetime P c = Inr t \<and> d = setcol df ''date'' t)"
  by (auto simp: convert_date_def then_do_Inr getcol_Inr)

lemma normalize_priority_Inr:
  "normalize_priority df = Inr d \<longleftrightarrow>
     (\<exists>xs. map_of df ''priority'' = Some (Object xs) \<and>
           d = setcol df ''priority'' (Object (map (map_option priority_label) xs)))"
  by (auto simp: normalize_priority_def then_do_Inr getcol_Inr str_accessor_Inr)

lemma valid_priority_Inr:
  "valid_priority df = Inr d \<longleftrightarrow>
     (\<exists>xs. map_of df ''priority'' = Some (Object xs) \<and>
           d = setcol (select_rows (isin xs (map fst priority_map)) df) ''priority_numeric''
                 (Number (map_values (compress (isin xs (map fst priority_map)) xs) priority_map)))"
  by (auto simp: valid_priority_def then_do_Inr getcol_Inr str_accessor_Inr Let_def
      map_of_select_rows)

lemma prepare_Inr:
  "prepare P raw = Inr df \<longleftrightarrow>
     (\<exists>d1 d3 d4. dropna_required (rename_value (normalize_columns raw)) = Inr d1 \<and>
        impute_categorical (impute_numeric d1) = Inr d3 \<and>
        convert_date P d3 = Inr d4 \<and> normalize_priority d4 = Inr df)"
  by (auto simp: prepare_def then_do_Inr)

lemma prepare_sales_person:
  assumes "prepare P raw = Inr df"
  shows "\<exists>a. map_of df ''sales_person'' = Some a \<and> True \<notin> set (isna a)"
proof -
  from assms obtain d1 d3 d4 where
    d1: "dropna_required (rename_value (normalize_columns raw)) = Inr d1" and
    d3: "impute_categorical (impute_numeric d1) = Inr d3" and
    d4: "convert_date P d3 = Inr d4" and df: "normalize_priority d4 = Inr df"
    by (auto simp: prepare_Inr)
  from d1 obtain a where a: "map_of d1 ''sales_person'' = Some a" "True \<notin> set (isna a)"
    by (auto simp: dropna_required_Inr map_of_select_rows dropna_mask_complete
        simp del: isna.simps)
  then have "map_of d3 ''sales_person'' = Some a"
    by (simp add: map_of_impute_categorical [OF d3] map_of_impute_numeric
        fill_median_complete fill_with_mode_complete)
  with d4 have "map_of d4 ''sales_person'' = Some a"
    by (auto simp: convert_date_Inr map_of_setcol)
  with df have "map_of df ''sales_person'' = Some a"
    by (auto simp: normalize_priority_Inr map_of_setcol)
  with a show ?thesis by blast
qed

lemma narrow_Inr:
  "narrow df = Inr d \<longleftrightarrow> (\<exists>dv. valid_priority df = Inr dv \<and> d = drop_duplicates dv)"
  by (auto simp: narrow_def then_do_Inr)

lemma clean_Inr:
  "clean P raw = Inr out \<longleftrightarrow>
     (\<exists>df dv d. prepare P raw = Inr df \<and> valid_priority df = Inr dv \<and>
        d = drop_duplicates dv \<and> remove_outliers d = Inr out)"
  by (auto simp: clean_def deduplicated_def then_do_Inr narrow_Inr)

lemma isin_compress: "compress (isin xs ks) xs = filter (\<lambda>x. x \<in> Some ` set ks) xs"
proof -
  have "isin xs ks = map (\<lambda>x. x \<in> Some ` set ks) xs"
    by (auto simp: isin_def split: option.splits)
  then show ?thesis by (simp add: compress_map_filter)
qed

lemma map_values_complete:
  "set ys \<subseteq> Some ` set (map fst d) \<Longrightarrow> None \<notin> set (map_values ys d)"
proof -
  assume a: "set ys \<subseteq> Some ` set (map fst d)"
  have "map_option of_int (Option.bind y (map_of d)) \<noteq> (None :: rat option)" if "y \<in> set ys" for y
  proof -
    from that a obtain s where s: "y = Some s" "s \<in> fst ` set d" by fastforce
    then obtain v where "map_of d s = Some v"
      by (cases "map_of d s") (auto simp: map_of_eq_None_iff)
    with s show ?thesis by simp
  qed
  then show ?thesis by (auto simp: map_values_def image_iff) 
qed

lemma compress_map_values:
  "compress keep (map_values ys d) = map_values (compress keep ys) d"
  by (simp add: map_values_def compress_map)

lemma narrowed_priority:
  assumes "valid_priority df = Inr dv"
  shows "\<exists>ys. map_of dv ''priority'' = Some (Object ys) \<and>
              set ys \<subseteq> Some ` set (map fst priority_map) \<and>
              map_of dv ''priority_numeric'' = Some (Number (map_values ys priority_map))"
proof -
  from assms obtain xs where xs: "map_of df ''priority'' = Some (Object xs)" and
    dv: "dv = setcol (select_rows (isin xs (map fst priority_map)) df) ''priority_numeric''
                 (Number (map_values (compress (isin xs (map fst priority_map)) xs) priority_map))"
    by (auto simp: valid_priority_Inr)
  let ?ys = "compress (isin xs (map fst priority_map)) xs"
  have "map_of dv ''priority'' = Some (Object ?ys)"
    by (simp add: dv map_of_setcol map_of_select_rows xs)
  moreover have "set ?ys \<subseteq> Some ` set (map fst priority_map)"
    by (auto simp: isin_compress)
  moreover have "map_of dv ''priority_numeric'' = Some (Number (map_values ?ys priority_map))"
    by (simp add: dv map_of_setcol)
  ultimately show ?thesis by blast
qed

lemma narrowed_other:
  assumes "valid_priority df = Inr dv" and "k \<noteq> ''priority_numeric''"
  shows "\<exists>keep. map_of dv k = map_option (take_rows keep) (map_of df k)"
  using assms by (auto simp: valid_priority_Inr map_of_setcol map_of_select_rows)


subsection \<open>The mode\<close>



subsection \<open>What imputation keeps\<close>

lemma length_fillna [simp]: "length (fillna v xs) = length xs"
  by (simp add: fillna_def)


lemma length_cells [simp]: "length (cells c) = col_len c"
  by (cases c) simp_all

lemma length_isna [simp]: "length (isna c) = col_len c"
  by (cases c) simp_all




subsection \<open>Row counts\<close>

lemma uniform_lookup: "uniform N df \<Longrightarrow> map_of df k = Some c \<Longrightarrow> col_len c = N"
  by (auto simp: uniform_def list_all_iff dest!: map_of_SomeD)

lemma uniform_map:
  "uniform N df \<Longrightarrow> (\<And>c. col_len c = N \<Longrightarrow> col_len (f c) = M) \<Longrightarrow>
   uniform M (map (\<lambda>(n, c). (g n, f c)) df)"
  by (auto simp: uniform_def list_all_iff)

lemma uniform_normalize_columns: "uniform N df \<Longrightarrow> uniform N (normalize_columns df)"
  unfolding normalize_columns_def by (rule uniform_map) simp_all

lemma uniform_rename_value: "uniform N df \<Longrightarrow> uniform N (rename_value df)"
  unfolding rename_value_def by (auto intro: uniform_map)

lemma length_compress: "length (compress keep xs) = kept keep (length xs)"
proof (induction xs arbitrary: keep)
  case Nil
  then show ?case by (simp add: kept_def)
next
  case (Cons x xs)
  then show ?case by (cases keep) (auto simp: kept_def)
qed

lemma col_len_take_rows: "col_len (take_rows keep c) = kept keep (col_len c)"
  by (cases c) (simp_all add: length_compress)

lemma uniform_select_rows: "uniform N df \<Longrightarrow> uniform (kept keep N) (select_rows keep df)"
  unfolding select_rows_def by (rule uniform_map [where g = "\<lambda>n. n"]) (auto simp: col_len_take_rows)

lemma col_len_fill_median [simp]: "col_len (fill_median c) = col_len c"
  by (cases c) (simp_all add: fill_median_def)

lemma col_len_fill_with_mode [simp]: "col_len (fill_with_mode c) = col_len c"
  by (cases c) (simp_all add: fill_with_mode_def)

lemma uniform_impute_numeric: "uniform N df \<Longrightarrow> uniform N (impute_numeric df)"
  unfolding impute_numeric_def by (rule uniform_map [where g = "\<lambda>n. n"]) simp_all

lemma kept_0 [simp]: "kept keep 0 = 0"
  by (simp add: kept_def)

lemma first_mode_Nil [simp]: "first_mode [] = None"
  by (simp add: first_mode_def mode_def present_def)

subsection \<open>Malformed tables\<close>

lemma prepare_no_rows:
  assumes "no_rows raw"
  shows "prepare P raw \<noteq> Inr df"
proof
  assume "prepare P raw = Inr df"
  then obtain d1 d3 d4 where
    d1: "dropna_required (rename_value (normalize_columns raw)) = Inr d1" and
    d3: "impute_categorical (impute_numeric d1) = Inr d3" and
    d4: "convert_date P d3 = Inr d4" and df: "normalize_priority d4 = Inr df"
    by (auto simp: prepare_Inr)
  from assms have "uniform 0 (rename_value (normalize_columns raw))"
    by (simp add: no_rows_def uniform_rename_value uniform_normalize_columns)
  with d1 have "uniform 0 d1"
    using uniform_select_rows [of 0] by (auto simp: dropna_required_Inr)
  then have u2: "uniform 0 (impute_numeric d1)"
    by (rule uniform_impute_numeric)
  from df obtain xs where "map_of d4 ''priority'' = Some (Object xs)"
    by (auto simp: normalize_priority_Inr)
  with d4 have "map_of d3 ''priority'' = Some (Object xs)"
    by (auto simp: convert_date_Inr map_of_setcol)
  then obtain c where c: "map_of (impute_numeric d1) ''priority'' = Some c"
    and f: "fill_with_mode c = Object xs"
    by (auto simp: map_of_impute_categorical [OF d3])
  from f obtain ys where ys: "c = Object ys"
    by (cases c) (auto simp: fill_with_mode_def)
  from uniform_lookup [OF u2 c] ys have "ys = []" by simp
  with impute_categorical_mode [OF d3 c [unfolded ys]] show False by simp
qed

lemma prepare_missing_required:
  assumes "\<not> set required \<subseteq> set (columns (rename_value (normalize_columns raw)))"
  shows "prepare P raw =
           Inl (KeyError (Labels (filter
             (\<lambda>k. k \<notin> set (columns (rename_value (normalize_columns raw)))) required)))"
proof -
  let ?df = "rename_value (normalize_columns raw)"
  from assms have "map_of ?df ''sales_person'' = None \<or> map_of ?df ''total_sales_value'' = None"
    by (auto simp: required_def columns_def map_of_eq_None_iff)
  then have "dropna_required ?df =
      Inl (KeyError (Labels (filter (\<lambda>k. k \<notin> set (columns ?df)) required)))"
    by (auto simp: dropna_required_def split: option.splits)
  then show ?thesis by (simp add: prepare_def then_do_def)
qed

lemma script_prepare_Inl: "prepare P raw = Inl e \<Longrightarrow> script P raw = (inspection raw, Some e)"
  by (simp add: script_def)

subsection \<open>Row counts through the pipeline\<close>












subsection \<open>Column names through the pipeline\<close>

lemma columns_select_rows [simp]: "columns (select_rows keep df) = columns df"
  by (simp add: columns_def select_rows_def comp_def case_prod_unfold)

lemma columns_impute_numeric [simp]: "columns (impute_numeric df) = columns df"
  by (simp add: columns_def impute_numeric_def comp_def case_prod_unfold)





subsection \<open>The required columns of the cleaned table\<close>

lemma clean_lookup:
  assumes "clean P raw = Inr out"
  shows "\<exists>df dv k1 k2. prepare P raw = Inr df \<and> valid_priority df = Inr dv \<and>
           (\<forall>k. map_of out k = map_option (take_rows k2 \<circ> take_rows k1) (map_of dv k))"
proof -
  from assms obtain df dv pop where df: "prepare P raw = Inr df" and
    dv: "valid_priority df = Inr dv" and
    out: "out = select_rows (within_bounds pop) (drop_duplicates dv)"
    by (auto simp: clean_Inr remove_outliers_Inr)
  have "map_of out k =
      map_option (take_rows (within_bounds pop) \<circ> take_rows (first_seen [] (rows dv))) (map_of dv k)"
    for k
    by (simp add: out drop_duplicates_def map_of_select_rows option.map_comp)
  with df dv show ?thesis by blast
qed

lemma cleaned_sales_person:
  assumes "clean P raw = Inr out"
  shows "\<exists>sp. map_of out ''sales_person'' = Some sp \<and> True \<notin> set (isna sp)"
proof -
  from clean_lookup [OF assms] obtain df dv k1 k2 where df: "prepare P raw = Inr df" and
    dv: "valid_priority df = Inr dv" and
    look: "\<And>k. map_of out k = map_option (take_rows k2 \<circ> take_rows k1) (map_of dv k)"
    by blast
  from prepare_sales_person [OF df] obtain a where
    a: "map_of df ''sales_person'' = Some a" "True \<notin> set (isna a)" by blast
  from narrowed_other [OF dv, of "''sales_person''"] a obtain k0 where
    "map_of dv ''sales_person'' = Some (take_rows k0 a)" by auto
  then have "map_of out ''sales_person'' = Some (take_rows k2 (take_rows k1 (take_rows k0 a)))"
    by (simp add: look)
  moreover have "True \<notin> set (isna (take_rows k2 (take_rows k1 (take_rows k0 a))))"
    by (intro take_rows_complete a)
  ultimately show ?thesis by blast
qed

lemma cleaned_sales_value:
  assumes "clean P raw = Inr out"
  shows "\<exists>tsv. map_of out ''total_sales_value'' = Some (Number tsv) \<and> None \<notin> set tsv"
proof -
  from assms obtain d pop where
    pop: "map_of d ''total_sales_value'' = Some (Number pop)" and
    out: "out = select_rows (within_bounds pop) d"
    by (auto simp: clean_def then_do_Inr remove_outliers_Inr)
  have "map_of out ''total_sales_value'' = Some (Number (compress (within_bounds pop) pop))"
    by (simp add: out map_of_select_rows pop)
  moreover have "None \<notin> set (compress (within_bounds pop) pop)"
    by (auto simp: within_bounds_filter nan_le_Some)
  ultimately show ?thesis by blast
qed

lemma cleaned_priority:
  assumes "clean P raw = Inr out"
  shows "\<exists>pr. map_of out ''priority'' = Some (Object pr) \<and>
           set pr \<subseteq> Some ` set (map fst priority_map) \<and>
           map_of out ''priority_numeric'' = Some (Number (map_values pr priority_map)) \<and>
           None \<notin> set (map_values pr priority_map)"
proof -
  from clean_lookup [OF assms] obtain df dv k1 k2 where
    dv: "valid_priority df = Inr dv" and
    look: "\<And>k. map_of out k = map_option (take_rows k2 \<circ> take_rows k1) (map_of dv k)"
    by blast
  from narrowed_priority [OF dv] obtain ys where
    ys: "map_of dv ''priority'' = Some (Object ys)"
        "set ys \<subseteq> Some ` set (map fst priority_map)"
        "map_of dv ''priority_numeric'' = Some (Number (map_values ys priority_map))"
    by blast
  let ?pr = "compress k2 (compress k1 ys)"
  have pr: "map_of out ''priority'' = Some (Object ?pr)"
    by (simp add: look ys)
  have sub: "set ?pr \<subseteq> Some ` set (map fst priority_map)"
    using set_compress [of k2 "compress k1 ys"] set_compress [of k1 ys] ys(2) by blast
  have pn: "map_of out ''priority_numeric'' = Some (Number (map_values ?pr priority_map))"
    by (simp add: look ys compress_map_values)
  have "None \<notin> set (map_values ?pr priority_map)"
    by (rule map_values_complete [OF sub])
  with pr sub pn show ?thesis by blast
qed

subsection \<open>Steps that change nothing\<close>










lemma fillna_None [simp]: "fillna None xs = xs"
  by (induction xs) (auto simp: fillna_def split: option.splits)










subsection \<open>Rows and duplicates\<close>






lemma select_rows_Nil [simp]: "select_rows keep df = [] \<longleftrightarrow> df = []"
  by (simp add: select_rows_def)


lemma length_first_seen [simp]: "length (first_seen seen rs) = length rs"
  by (induction rs arbitrary: seen) simp_all






subsection \<open>What the first run leaves\<close>

















lemma setcol_not_Nil [simp]: "setcol df n c \<noteq> []"
  by (induction df n c rule: setcol.induct) auto


subsection \<open>Column names normalized twice\<close>

text \<open>
  The normalization of a column name is not idempotent in general: once the pound sign is
  removed, a tab that stood behind it is at the front of the name, where a second
  normalization strips it. It is idempotent on every name whose only whitespace
  characters are spaces. A cleaned table without rows cannot be cleaned again: the mode
  of its first column of strings is empty.
\<close>

lemma of_char_lower_char:
  "(of_char (lower_char c) :: nat) =
     (let n = of_char c
      in if (65 \<le> n \<and> n \<le> 90) \<or> (192 \<le> n \<and> n \<le> 222 \<and> n \<noteq> 215) then n + 32 else n)"
  by (auto simp: lower_char_def Let_def)

lemma lower_char_idem: "lower_char (lower_char c) = lower_char c"
proof -
  have "(of_char (lower_char (lower_char c)) :: nat) = of_char (lower_char c)"
    unfolding of_char_lower_char [of "lower_char c"] unfolding of_char_lower_char [of c]
    by (auto simp: Let_def)
  then show ?thesis by simp
qed

lemma lower_char_space: "isspace (lower_char c) \<Longrightarrow> lower_char c = c"
proof -
  assume "isspace (lower_char c)"
  then have "(of_char (lower_char c) :: nat) = of_char c"
    unfolding isspace_def of_char_lower_char by (auto simp: Let_def split: if_splits)
  then show ?thesis by simp
qed

lemma dropWhile_none: "\<forall>x \<in> set xs. \<not> Q x \<Longrightarrow> dropWhile Q xs = xs"
  by (cases xs) auto

lemma strip_none: "\<forall>x \<in> set s. \<not> isspace x \<Longrightarrow> strip s = s"
  by (simp add: strip_def dropWhile_none)

lemma set_strip: "set (strip s) \<subseteq> set s"
proof
  fix x assume "x \<in> set (strip s)"
  then have "x \<in> set (dropWhile isspace (rev (dropWhile isspace s)))"
    by (simp add: strip_def)
  then have "x \<in> set (rev (dropWhile isspace s))"
    by (rule set_dropWhileD)
  then have "x \<in> set (dropWhile isspace s)"
    by simp
  then show "x \<in> set s"
    by (rule set_dropWhileD)
qed

lemma underscore_facts:
  "\<not> isspace (CHR ''_'')" "lower_char (CHR ''_'') = CHR ''_''"
  "CHR ''_'' \<noteq> CHR 0xA3" "CHR ''_'' \<noteq> CHR 0xE2" "\<not> isspace (CHR 0xA3)" "isspace (CHR '' '')"
  by code_simp+

lemma normalize_name_stable:
  assumes "\<forall>ch \<in> set s. isspace ch \<longrightarrow> ch = CHR '' ''"
  shows "normalize_name (normalize_name s) = normalize_name s"
proof -
  define t where "t = normalize_name s"
  have ch: "\<not> isspace ch \<and> lower_char ch = ch \<and> ch \<noteq> CHR 0xA3 \<and> ch \<noteq> CHR 0xE2 \<and> ch \<noteq> CHR '' ''"
    if "ch \<in> set t" for ch
  proof -
    have "set t = (\<lambda>y. if y = CHR '' '' then CHR ''_'' else y) `
        {y \<in> lower_char ` set (strip s). y \<noteq> CHR 0xA3 \<and> y \<noteq> CHR 0xE2}"
      by (auto simp: t_def normalize_name_def replace_char_def remove_char_def lower_def)
    with that obtain x where x: "x \<in> set (strip s)" and
      y: "lower_char x \<noteq> CHR 0xA3" "lower_char x \<noteq> CHR 0xE2" and
      c: "ch = (if lower_char x = CHR '' '' then CHR ''_'' else lower_char x)"
      by blast
    show ?thesis
    proof (cases "lower_char x = CHR '' ''")
      case True
      with c show ?thesis by (simp add: underscore_facts)
    next
      case False
      have "\<not> isspace (lower_char x)"
      proof
        assume sp: "isspace (lower_char x)"
        then have "lower_char x = x" by (rule lower_char_space)
        with sp x set_strip assms have "x = CHR '' ''" by auto
        with \<open>lower_char x = x\<close> False show False by simp
      qed
      with False c y show ?thesis by (simp add: lower_char_idem)
    qed
  qed
  have 1: "strip t = t" using ch by (intro strip_none) blast
  have 2: "lower t = t" unfolding lower_def using ch by (intro map_idI) blast
  have 3: "remove_char (CHR 0xA3) t = t" "remove_char (CHR 0xE2) t = t"
    unfolding remove_char_def using ch by (auto intro!: filter_True)
  have 4: "replace_char (CHR '' '') (CHR ''_'') t = t"
    unfolding replace_char_def using ch by (intro map_idI) auto
  have "normalize_name t = t"
    by (simp add: normalize_name_def 1 2 3 4)
  then show ?thesis by (simp add: t_def)
qed

lemma normalize_name_twice_example:
  "normalize_name [CHR 0xA3, CHR 9, CHR ''x''] = [CHR 9, CHR ''x''] \<and>
   normalize_name [CHR 9, CHR ''x''] = ''x''"
  by code_simp

lemma clean_empty_again_example:
  "map_sum id nrows (clean iso_dates unknown_only) = Inr 0 \<and>
   then_do (clean iso_dates unknown_only) (clean iso_dates) = Inl (KeyError (Position 0))"
  by code_simp

subsection \<open>Priority labels\<close>

text \<open>
  Line 104 maps a priority without leading whitespace to a label of the priority map
  whenever it equals that label up to letter case and trailing whitespace.
\<close>

lemma of_char_upper_char:
  "(of_char (upper_char c) :: nat) =
     (let n = of_char c
      in if (97 \<le> n \<and> n \<le> 122) \<or> (224 \<le> n \<and> n \<le> 254 \<and> n \<noteq> 247) then n - 32 else n)"
  by (auto simp: upper_char_def Let_def)

lemma upper_lower_char: "upper_char (lower_char c) = upper_char c"
proof -
  have "(of_char (upper_char (lower_char c)) :: nat) = of_char (upper_char c)"
    unfolding of_char_upper_char [of "lower_char c"] of_char_upper_char [of c]
      of_char_lower_char [of c]
    by (auto simp: Let_def)
  then show ?thesis by simp
qed

lemma isspace_lower_char [simp]: "isspace (lower_char c) \<longleftrightarrow> isspace c"
proof
  assume "isspace (lower_char c)"
  then show "isspace c" using lower_char_space [of c] by simp
next
  assume "isspace c"
  then have "lower_char c = c"
    by (auto simp: isspace_def lower_char_def Let_def)
  with \<open>isspace c\<close> show "isspace (lower_char c)" by simp
qed

lemma isspace_upper_char [simp]: "isspace (upper_char c) \<longleftrightarrow> isspace c"
proof -
  have "(of_char (upper_char c) :: nat) \<in> {9, 10, 11, 12, 13, 28, 29, 30, 31, 32, 133, 160}
      \<longleftrightarrow> (of_char c :: nat) \<in> {9, 10, 11, 12, 13, 28, 29, 30, 31, 32, 133, 160}"
    unfolding of_char_upper_char by (auto simp: Let_def)
  then show ?thesis by (simp add: isspace_def)
qed

lemma strip_Cons: "\<not> isspace c \<Longrightarrow> strip (c # cs) = c # rev (dropWhile isspace (rev cs))"
  by (simp add: strip_def dropWhile_append)

lemma rstrip_lower: "rev (dropWhile isspace (rev (lower cs))) = lower (rev (dropWhile isspace (rev cs)))"
  by (simp add: lower_def rev_map dropWhile_map comp_def)

lemma capitalize_labels:
  assumes "L \<in> set (map fst priority_map)" and "lower t = lower L"
  shows "capitalize t = L"
proof -
  have eval: "lower L \<noteq> [] \<and> upper_char (hd (lower L)) # tl (lower L) = L"
  proof -
    have "lower ''Low'' \<noteq> [] \<and> upper_char (hd (lower ''Low'')) # tl (lower ''Low'') = ''Low''"
      "lower ''Medium'' \<noteq> [] \<and> upper_char (hd (lower ''Medium'')) # tl (lower ''Medium'') = ''Medium''"
      "lower ''High'' \<noteq> [] \<and> upper_char (hd (lower ''High'')) # tl (lower ''High'') = ''High''"
      "lower ''Critical'' \<noteq> [] \<and>
         upper_char (hd (lower ''Critical'')) # tl (lower ''Critical'') = ''Critical''"
      by code_simp+
    with assms(1) show ?thesis by (auto simp: priority_map_def)
  qed
  with assms(2) obtain c cs where t: "t = c # cs" by (cases t) (auto simp: lower_def)
  from assms(2) have "lower_char c = hd (lower L)" "lower cs = tl (lower L)"
    by (auto simp: t lower_def)
  then have "capitalize t = upper_char (hd (lower L)) # tl (lower L)"
    using upper_lower_char [of c] by (simp add: t capitalize_def)
  with eval show ?thesis by simp
qed

lemma priority_label_trailing:
  assumes "L \<in> set (map fst priority_map)" and "lower (strip s) = lower L"
    and "s \<noteq> []" and "\<not> isspace (hd s)"
  shows "priority_label s = L"
proof -
  from assms(3,4) obtain c cs where s: "s = c # cs" and c: "\<not> isspace c"
    by (cases s) auto
  have "priority_label s = strip (upper_char c # lower cs)"
    by (simp add: priority_label_def capitalize_def s)
  also have "\<dots> = upper_char c # lower (rev (dropWhile isspace (rev cs)))"
    using c by (simp add: strip_Cons rstrip_lower)
  also have "\<dots> = capitalize (strip s)"
    using c by (simp add: s strip_Cons capitalize_def)
  also have "\<dots> = L"
    by (rule capitalize_labels [OF assms(1,2)])
  finally show ?thesis .
qed

section \<open>The claims\<close>



text \<open>
  Claim C2 at a priority with a leading space: line 104 capitalizes before it strips, so
  \<open>" low"\<close> keeps its lower-case first letter, is not a key of the priority map, and
  Bob's row is filtered out; \<open>"low "\<close>, with the space behind, is kept as \<open>Low\<close>.
\<close>

theorem leading_space_priority_rejected:
  "priority_label '' low'' = ''low'' \<and>
   priority_label ''low '' = ''Low'' \<and>
   clean iso_dates leading_space =
     Inr [(''sales_person'', Object [Some ''Alice'']),
          (''total_sales_value'', Number [Some 100]),
          (''priority'', Object [Some ''Low'']),
          (''date'', Datetime [Some 20240101]),
          (''priority_numeric'', Number [Some 1])]"
  by code_simp

text \<open>
  Claim C3: in the cleaned table no sales person and no sales value is missing, every
  priority is one of the four labels of the priority map, and no priority number is
  missing (it is the number the map gives to the row's label).
\<close>

theorem cleaned_has_no_nulls:
  assumes "clean P raw = Inr out"
  shows "\<exists>sp tsv pr pn.
           map_of out ''sales_person'' = Some sp \<and> True \<notin> set (isna sp) \<and>
           map_of out ''total_sales_value'' = Some (Number tsv) \<and> None \<notin> set tsv \<and>
           map_of out ''priority'' = Some (Object pr) \<and>
           (\<forall>p \<in> set pr. \<exists>s. p = Some s \<and> s \<in> set (map fst priority_map)) \<and>
           map_of out ''priority_numeric'' = Some (Number pn) \<and> None \<notin> set pn \<and>
           pn = map_values pr priority_map"
proof -
  from cleaned_sales_person [OF assms] obtain sp where
    sp: "map_of out ''sales_person'' = Some sp" "True \<notin> set (isna sp)"
    by blast
  from cleaned_sales_value [OF assms] obtain tsv where
    tsv: "map_of out ''total_sales_value'' = Some (Number tsv)" "None \<notin> set tsv"
    by blast
  from cleaned_priority [OF assms] obtain pr where
    pr: "map_of out ''priority'' = Some (Object pr)"
        "set pr \<subseteq> Some ` set (map fst priority_map)" and
    pn: "map_of out ''priority_numeric'' = Some (Number (map_values pr priority_map))"
        "None \<notin> set (map_values pr priority_map)"
    by blast
  from pr(2) have "\<forall>p \<in> set pr. \<exists>s. p = Some s \<and> s \<in> set (map fst priority_map)"
    by blast
  with sp tsv pr(1) pn show ?thesis
    by blast
qed

theorem cleaned_has_no_nulls_witness:
  "clean iso_dates five_sales = Inr four_sales \<and>
   (\<exists>sp tsv pr pn.
      map_of four_sales ''sales_person'' = Some sp \<and> True \<notin> set (isna sp) \<and>
      map_of four_sales ''total_sales_value'' = Some (Number tsv) \<and> None \<notin> set tsv \<and>
      map_of four_sales ''priority'' = Some (Object pr) \<and>
      (\<forall>p \<in> set pr. \<exists>s. p = Some s \<and> s \<in> set (map fst priority_map)) \<and>
      map_of four_sales ''priority_numeric'' = Some (Number pn) \<and> None \<notin> set pn \<and>
      pn = map_values pr priority_map)"
proof -
  have h: "clean iso_dates five_sales = Inr four_sales"
    by code_simp
  from cleaned_has_no_nulls [OF h] h show ?thesis
    by blast
qed




text \<open>
  Claim C5, as stated: a malformed table makes the pipeline signal a SchemaError. The
  script has no such error and no check of the schema. On a file with a header and no
  rows it runs until line 88, where \<open>mode()[0]\<close> on the empty first column raises
  KeyError.
\<close>

theorem schema_error_counterexample:
  "script iso_dates header_only = (inspection header_only, Some (KeyError (Position 0)))"
  by code_simp

text \<open>
  Claim C5, amended: on a table without rows, or without a sales person or sales value
  column after the renaming, the script stops with an unhandled exception after the
  inspection of the raw table and before the cleaning diagnostics and every statistic;
  when a required column is missing the exception is the KeyError of line 69, naming the
  missing labels.
\<close>

theorem malformed_input_aborts:
  assumes "no_rows raw \<or> \<not> set required \<subseteq> set (columns (rename_value (normalize_columns raw)))"
  shows "(\<exists>e. script P raw = (inspection raw, Some e)) \<and>
         (\<not> set required \<subseteq> set (columns (rename_value (normalize_columns raw))) \<longrightarrow>
            script P raw =
              (inspection raw,
               Some (KeyError (Labels (filter
                 (\<lambda>k. k \<notin> set (columns (rename_value (normalize_columns raw)))) required)))))"
proof -
  have 2: "script P raw =
              (inspection raw,
               Some (KeyError (Labels (filter
                 (\<lambda>k. k \<notin> set (columns (rename_value (normalize_columns raw)))) required))))"
    if "\<not> set required \<subseteq> set (columns (rename_value (normalize_columns raw)))"
    using prepare_missing_required [OF that, of P] by (rule script_prepare_Inl)
  have 1: "\<exists>e. script P raw = (inspection raw, Some e)"
  proof (cases "no_rows raw")
    case True
    then obtain e where "prepare P raw = Inl e"
      using prepare_no_rows [of raw P] by (cases "prepare P raw") auto
    then show ?thesis by (auto dest: script_prepare_Inl)
  next
    case False
    with assms 2 show ?thesis by blast
  qed
  from 1 2 show ?thesis by blast
qed

theorem malformed_input_aborts_witness:
  "no_rows header_only \<and>
   (\<exists>e. script iso_dates header_only = (inspection header_only, Some e)) \<and>
   \<not> set required \<subseteq> set (columns (rename_value (normalize_columns no_value))) \<and>
   script iso_dates no_value =
     (inspection no_value, Some (KeyError (Labels [''total_sales_value''])))"
proof -
  have a: "no_rows header_only"
    by (simp add: no_rows_def uniform_def header_only_def)
  have b: "\<not> set required \<subseteq> set (columns (rename_value (normalize_columns no_value)))"
    by code_simp
  have c: "filter (\<lambda>k. k \<notin> set (columns (rename_value (normalize_columns no_value)))) required =
      [''total_sales_value'']"
    by code_simp
  from malformed_input_aborts [of header_only iso_dates] a
  have 1: "\<exists>e. script iso_dates header_only = (inspection header_only, Some e)"
    by blast
  from malformed_input_aborts [of no_value iso_dates] b
  have 2: "script iso_dates no_value =
     (inspection no_value, Some (KeyError (Labels [''total_sales_value''])))"
    unfolding c by blast
  from a b 1 2 show ?thesis by blast
qed

text \<open>
  Claim C6 at a categorical column that line 69 leaves without a value: the mode of the
  region column is empty and \<open>mode()[0]\<close> raises KeyError.
\<close>

theorem empty_mode_raises:
  "clean iso_dates region_lost = Inl (KeyError (Position 0))"
  by code_simp

text \<open>
  Claim C7, as stated: on the three rows of the scenario the final table has exactly two
  rows. It has one: Bob's row has no sales value and line 69 drops it before anything is
  imputed.
\<close>

theorem scenario_two_rows_counterexample:
  "map_sum id nrows (clean iso_dates scenario) = Inr 1 \<and>
   map_sum id nrows (clean iso_dates scenario) \<noteq> Inr 2"
  by code_simp

text \<open>
  Claim C7, amended: on the three rows of the scenario, the required-field rule drops
  Bob's row (its sales value is missing), so nothing is left to impute; the two equal
  rows of Alice are reduced to the first, and the final table has exactly one row,
  whatever the date parser makes of the date.
\<close>

theorem scenario_one_row:
  "dropna_required (rename_value (normalize_columns scenario)) =
     Inr [(''sales_person'', Object [Some ''Alice'', Some ''Alice'']),
          (''total_sales_value'', Number [Some 100, Some 100]),
          (''priority'', Object [Some ''Low'', Some ''Low'']),
          (''date'', Object [Some ''2024-01-01'', Some ''2024-01-01''])] \<and>
   clean P scenario =
     Inr [(''sales_person'', Object [Some ''Alice'']),
          (''total_sales_value'', Number [Some 100]),
          (''priority'', Object [Some ''Low'']),
          (''date'', Datetime [parse_text P [Some ''2024-01-01'', Some ''2024-01-01'']
                                 ''2024-01-01'']),
          (''priority_numeric'', Number [Some 1])]"
  by code_simp








end
